theory Spec2Isabelle
  imports Main
begin

section \<open>Python values and exceptions\<close>

text \<open>
  The handlers of \<^verbatim>\<open>server/postgres_db.py\<close> and the loop of
  \<^verbatim>\<open>client/db_client.py\<close> distinguish exceptions only by class, in
  \<^verbatim>\<open>except SQLAlchemyError\<close>, \<^verbatim>\<open>except Exception\<close> and
  \<^verbatim>\<open>except KeyboardInterrupt\<close>, and read them only through \<^verbatim>\<open>str(e)\<close>.
  An exception is therefore its class, up to these three tests, and its \<^verbatim>\<open>str\<close>.
  \<open>SQLAlchemyErrorC\<close> stands for \<^verbatim>\<open>SQLAlchemyError\<close> and its subclasses,
  \<open>ExceptionC\<close> for every other subclass of \<^verbatim>\<open>Exception\<close>,
  \<open>BaseExceptionC\<close> for what derives from \<^verbatim>\<open>BaseException\<close> only
  (\<^verbatim>\<open>SystemExit\<close>, \<^verbatim>\<open>asyncio.CancelledError\<close>).
\<close>

datatype exn_class = SQLAlchemyErrorC | ExceptionC | KeyboardInterruptC | BaseExceptionC

datatype exn = Exn (cls: exn_class) (str: string)

definition isinstance_SQLAlchemyError :: "exn \<Rightarrow> bool" where
  "isinstance_SQLAlchemyError e = (cls e = SQLAlchemyErrorC)"

definition isinstance_Exception :: "exn \<Rightarrow> bool" where
  "isinstance_Exception e = (cls e = SQLAlchemyErrorC \<or> cls e = ExceptionC)"

definition isinstance_KeyboardInterrupt :: "exn \<Rightarrow> bool" where
  "isinstance_KeyboardInterrupt e = (cls e = KeyboardInterruptC)"

text \<open>The values of a result row (\<^verbatim>\<open>Dict[str, Any]\<close>); a row keeps its column order.\<close>

datatype pyval = PyNone | PyBool bool | PyInt int | PyStr string

type_synonym row = "(string \<times> pyval) list"

text \<open>An f-string renders an \<^verbatim>\<open>Optional[str]\<close> that is \<^verbatim>\<open>None\<close> as the text \<^verbatim>\<open>None\<close>.\<close>

fun fmt :: "string option \<Rightarrow> string" where
  "fmt None = ''None''"
| "fmt (Some s) = s"

section \<open>The database seen by the server\<close>

text \<open>
  SQLAlchemy and the database are not part of the repository: each call the handlers make
  on them is a field that gives the call's outcome, \<open>Inl e\<close> or \<open>Some e\<close> when
  it raises \<open>e\<close>. A column as \<^verbatim>\<open>inspector.get_columns\<close> reflects it carries the four
  keys the handlers read; \<open>col_type\<close> is \<^verbatim>\<open>str(col["type"])\<close>.
\<close>

record reflected_column =
  col_name :: string
  col_type :: string
  col_nullable :: bool
  col_default :: "string option"

record cursor =
  returns_rows :: bool
  fetch :: "exn + row list"
  rowcount :: int

record database =
  inspect :: "exn option"
  get_columns :: "string \<Rightarrow> exn + reflected_column list"
  connect :: "exn option"
  execute :: "string \<Rightarrow> exn + cursor"
  commit :: "exn option"
  close :: "exn option"

text \<open>What a handler does to the outside is the list of calls it makes, in order.\<close>

datatype event =
    Connect
  | Execute string
  | Fetch
  | Commit
  | Close
  | LogError string
  | LogTraceback exn

text \<open>
  \<^verbatim>\<open>with engine.connect() as conn:\<close> around a body. When \<^verbatim>\<open>connect\<close> raises, the body
  does not run and nothing is closed. Otherwise the connection is closed on every way out
  of the body, and an exception of \<^verbatim>\<open>close\<close> replaces the body's outcome.
\<close>

definition with_connection ::
  "database \<Rightarrow> event list \<times> (exn + 'a) \<Rightarrow> event list \<times> (exn + 'a)" where
  "with_connection db body =
     (case connect db of
        Some e \<Rightarrow> ([Connect], Inl e)
      | None \<Rightarrow>
          (case close db of
             None \<Rightarrow> (Connect # fst body @ [Close], snd body)
           | Some e \<Rightarrow> (Connect # fst body @ [Close], Inl e)))"

section \<open>The server handlers\<close>

record SQLQueryResult =
  success :: bool
  sql :: string
  row_count :: int
  rows :: "row list option"
  error :: "string option"

record column_descriptor =
  cd_name :: string
  cd_type :: string
  cd_nullable :: bool
  cd_default :: "string option"

record table_descriptor =
  td_table :: string
  td_columns :: "column_descriptor list"

record sample_data_view =
  sd_table :: string
  sd_columns :: "string list"
  sd_sample_rows :: "row list"
  sd_error :: "string option"

subsection \<open>\<^verbatim>\<open>describe_table\<close>\<close>

text \<open>
  The function has no \<^verbatim>\<open>try\<close>: what \<^verbatim>\<open>inspect(engine)\<close> or
  \<^verbatim>\<open>inspector.get_columns(table_name)\<close> raises leaves the call.
\<close>

definition describe_table :: "database \<Rightarrow> string \<Rightarrow> exn + table_descriptor" where
  "describe_table db table_name =
     (case inspect db of
        Some e \<Rightarrow> Inl e
      | None \<Rightarrow>
          (case get_columns db table_name of
             Inl e \<Rightarrow> Inl e
           | Inr cols \<Rightarrow>
               Inr \<lparr>td_table = table_name,
                    td_columns =
                      map (\<lambda>col. \<lparr>cd_name = col_name col, cd_type = col_type col,
                                   cd_nullable = col_nullable col,
                                   cd_default = col_default col\<rparr>) cols\<rparr>))"

subsection \<open>\<^verbatim>\<open>run_sql\<close>\<close>

text \<open>The body of the \<^verbatim>\<open>try\<close>: the outcome \<open>Inl e\<close> is the body raising \<open>e\<close>.\<close>

definition run_sql_try :: "database \<Rightarrow> string \<Rightarrow> event list \<times> (exn + SQLQueryResult)" where
  "run_sql_try db sql_query =
     with_connection db
       (case execute db sql_query of
          Inl e \<Rightarrow> ([Execute sql_query], Inl e)
        | Inr result \<Rightarrow>
            if returns_rows result then
              (case fetch result of
                 Inl e \<Rightarrow> ([Execute sql_query, Fetch], Inl e)
               | Inr rs \<Rightarrow>
                   ([Execute sql_query, Fetch],
                    Inr \<lparr>success = True, sql = sql_query, row_count = int (length rs),
                         rows = Some rs, error = None\<rparr>))
            else
              (case commit db of
                 Some e \<Rightarrow> ([Execute sql_query, Commit], Inl e)
               | None \<Rightarrow>
                   ([Execute sql_query, Commit],
                    Inr \<lparr>success = True, sql = sql_query, row_count = rowcount result,
                         rows = None, error = None\<rparr>)))"

definition run_sql :: "database \<Rightarrow> string \<Rightarrow> event list \<times> (exn + SQLQueryResult)" where
  "run_sql db sql_query =
     (case run_sql_try db sql_query of
        (evs, Inr r) \<Rightarrow> (evs, Inr r)
      | (evs, Inl e) \<Rightarrow>
          if isinstance_SQLAlchemyError e then
            (evs @ [LogError (''SQL error: '' @ str e)],
             Inr \<lparr>success = False, sql = sql_query, row_count = 0,
                  rows = None, error = Some (str e)\<rparr>)
          else if isinstance_Exception e then
            (evs @ [LogTraceback e],
             Inr \<lparr>success = False, sql = sql_query, row_count = 0,
                  rows = None, error = Some (str e)\<rparr>)
          else (evs, Inl e))"

subsection \<open>\<^verbatim>\<open>sample_data_resource\<close>\<close>

text \<open>
  \<^verbatim>\<open>inspect(engine)\<close> is called before the \<^verbatim>\<open>try\<close>. Inside it the rows are read
  whatever the cursor is, and returned as the database gave them: the bound on their
  number is the \<^verbatim>\<open>LIMIT 5\<close> of the statement.
\<close>

definition sample_data_try :: "database \<Rightarrow> string \<Rightarrow> event list \<times> (exn + sample_data_view)" where
  "sample_data_try db table_name =
     (case get_columns db table_name of
        Inl e \<Rightarrow> ([], Inl e)
      | Inr cs \<Rightarrow>
          (case with_connection db
                  (case execute db (''SELECT * FROM '' @ table_name @ '' LIMIT 5'') of
                     Inl e \<Rightarrow> ([Execute (''SELECT * FROM '' @ table_name @ '' LIMIT 5'')], Inl e)
                   | Inr result \<Rightarrow>
                       ([Execute (''SELECT * FROM '' @ table_name @ '' LIMIT 5''), Fetch],
                        fetch result)) of
             (evs, Inl e) \<Rightarrow> (evs, Inl e)
           | (evs, Inr rs) \<Rightarrow>
               (evs, Inr \<lparr>sd_table = table_name, sd_columns = map col_name cs,
                          sd_sample_rows = rs, sd_error = None\<rparr>)))"

definition sample_data_resource ::
  "database \<Rightarrow> string \<Rightarrow> event list \<times> (exn + sample_data_view)" where
  "sample_data_resource db table_name =
     (case inspect db of
        Some e \<Rightarrow> ([], Inl e)
      | None \<Rightarrow>
          (case sample_data_try db table_name of
             (evs, Inr v) \<Rightarrow> (evs, Inr v)
           | (evs, Inl e) \<Rightarrow>
               if isinstance_Exception e then
                 (evs @ [LogError (''Error fetching sample data for table '' @ table_name
                                    @ '': '' @ str e)],
                  Inr \<lparr>sd_table = table_name, sd_columns = [], sd_sample_rows = [],
                       sd_error = Some (str e)\<rparr>)
               else (evs, Inl e)))"

subsection \<open>\<^verbatim>\<open>handle_query_error\<close>\<close>

text \<open>
  The prompt reads nothing but its arguments, so it is a function of them alone. The
  three literal lines after the two interpolated values are \<open>recovery_script\<close>.
\<close>

record prompt_message =
  role :: string
  content_type :: string
  content_text :: string

record prompt_result =
  pr_description :: string
  messages :: "prompt_message list"

definition recovery_script :: string where
  "recovery_script =
     ''Here are your options:\<newline>'' @
     ''1. Call list_tables() to check available tables.\<newline>'' @
     ''2. Call describe_table(table_name) to inspect schema of the target table.\<newline>'' @
     ''3. Once you have correct schema/columns, craft a corrected SQL and call run_sql().\<newline>'' @
     ''Which step will you take?''"

definition handle_query_error ::
  "string \<Rightarrow> string option \<Rightarrow> string option \<Rightarrow> prompt_result" where
  "handle_query_error error_message table_name sql_query =
     \<lparr>pr_description = ''...'',
      messages =
        [\<lparr>role = ''user'', content_type = ''text'',
          content_text =
            ''You attempted to run this SQL query:\<newline>'' @ fmt sql_query @ ''\<newline>\<newline>'' @
            ''It failed with the error:\<newline>'' @ error_message @ ''\<newline>\<newline>'' @
            recovery_script\<rparr>]\<rparr>"

section \<open>The orchestration loop of the client\<close>

text \<open>
  A string is the UTF-8 text of a Python \<^verbatim>\<open>str\<close>. \<^verbatim>\<open>str.lower\<close> belongs to
  Python and not to the repository, and follows the case tables of Unicode: the loop, its
  rounds and its branches take it as their first argument \<open>lower\<close>, and what is proved
  of them holds for every such function.
\<close>

record TaskRequest =
  task_type :: "string option"
  description :: "string option"
  priority :: "string option"

text \<open>
  What the loop prints, without the decoration of each line. \<open>TaskAnalysis\<close> carries
  the three fields as they are shown: \<^verbatim>\<open>task.priority or 'low'\<close> shows \<^verbatim>\<open>low\<close> for
  \<^verbatim>\<open>None\<close> and for the empty string.
\<close>

datatype printed =
    Banner
  | Goodbye
  | CreatingTask
  | TaskAnalysis string string string
  | Assistant string
  | ErrorShown string
  | TryAgain

datatype cevent =
    Print printed
  | Input string
  | AgentRun string
  | AgentRunStructured string
  | CloseAllSessions

text \<open>
  The agent keeps the conversation in memory, so a call's outcome may depend on all that
  happened before it: the agent is a function of the events so far and of the prompt.
  \<open>run_structured\<close> is \<^verbatim>\<open>agent.run\<close> with \<^verbatim>\<open>output_schema=TaskRequest\<close>.
\<close>

record agent =
  run :: "cevent list \<Rightarrow> string \<Rightarrow> exn + string"
  run_structured :: "cevent list \<Rightarrow> string \<Rightarrow> exn + TaskRequest"

text \<open>
  The session: the lines the user will still type, each either a line or the exception
  \<^verbatim>\<open>input\<close> raises instead, and the events so far. At the end of the input
  \<^verbatim>\<open>input\<close> raises \<^verbatim>\<open>EOFError\<close>.
\<close>

record session =
  stdin :: "(exn + string) list"
  trace :: "cevent list"

definition py_print :: "printed \<Rightarrow> session \<Rightarrow> session" where
  "py_print x s = s\<lparr>trace := trace s @ [Print x]\<rparr>"

definition input :: "string \<Rightarrow> session \<Rightarrow> (exn + string) \<times> session" where
  "input prompt s =
     (case stdin s of
        [] \<Rightarrow> (Inl (Exn ExceptionC ''EOF when reading a line''),
               s\<lparr>trace := trace s @ [Input prompt]\<rparr>)
      | x # xs \<Rightarrow> (x, s\<lparr>stdin := xs, trace := trace s @ [Input prompt]\<rparr>))"

definition agent_run :: "agent \<Rightarrow> string \<Rightarrow> session \<Rightarrow> (exn + string) \<times> session" where
  "agent_run ag prompt s = (run ag (trace s) prompt, s\<lparr>trace := trace s @ [AgentRun prompt]\<rparr>)"

definition agent_run_structured ::
  "agent \<Rightarrow> string \<Rightarrow> session \<Rightarrow> (exn + TaskRequest) \<times> session" where
  "agent_run_structured ag prompt s =
     (run_structured ag (trace s) prompt, s\<lparr>trace := trace s @ [AgentRunStructured prompt]\<rparr>)"

definition priority_or_low :: "string option \<Rightarrow> string" where
  "priority_or_low p = (case p of None \<Rightarrow> ''low'' | Some x \<Rightarrow> if x = [] then ''low'' else x)"

text \<open>
  The two branches of the inner \<^verbatim>\<open>try\<close>. The outcome \<open>Some e\<close> is the branch raising
  \<open>e\<close>, at the state where it was raised.
\<close>

definition task_branch ::
  "(string \<Rightarrow> string) \<Rightarrow> agent \<Rightarrow> session \<Rightarrow> exn option \<times> session" where
  "task_branch lower ag s =
     (case input ''Describe your task: '' (py_print CreatingTask s) of
        (Inl e, s2) \<Rightarrow> (Some e, s2)
      | (Inr task_description, s2) \<Rightarrow>
          (case agent_run_structured ag
                  (''Analyze a task with the following description: '' @ task_description) s2 of
             (Inl e, s3) \<Rightarrow> (Some e, s3)
           | (Inr task, s3) \<Rightarrow>
               (case input ''\<newline>Do you want to proceed with this task? (y/n)''
                       (py_print (TaskAnalysis (fmt (task_type task)) (fmt (description task))
                                     (priority_or_low (priority task))) s3) of
                  (Inl e, s5) \<Rightarrow> (Some e, s5)
                | (Inr proceed, s5) \<Rightarrow>
                    if lower proceed = ''y'' then
                      (case agent_run ag
                              (''Execute the following task: '' @ fmt (description task)) s5 of
                         (Inl e, s6) \<Rightarrow> (Some e, s6)
                       | (Inr response, s6) \<Rightarrow> (None, py_print (Assistant response) s6))
                    else (None, s5))))"

definition free_form :: "agent \<Rightarrow> string \<Rightarrow> session \<Rightarrow> exn option \<times> session" where
  "free_form ag user_input s =
     (case agent_run ag user_input s of
        (Inl e, s2) \<Rightarrow> (Some e, s2)
      | (Inr response, s2) \<Rightarrow> (None, py_print (Assistant response) s2))"

text \<open>
  One round of \<^verbatim>\<open>while True\<close>. The first \<^verbatim>\<open>input\<close> is outside the inner
  \<^verbatim>\<open>try\<close>, so what it raises leaves the loop; so does an exception of the inner
  \<^verbatim>\<open>try\<close> that is neither a \<^verbatim>\<open>KeyboardInterrupt\<close> nor an \<^verbatim>\<open>Exception\<close>.
\<close>

datatype control = Continue | Break | Propagate exn

definition turn :: "(string \<Rightarrow> string) \<Rightarrow> agent \<Rightarrow> session \<Rightarrow> control \<times> session" where
  "turn lower ag s =
     (case input ''\<newline>You: '' s of
        (Inl e, s1) \<Rightarrow> (Propagate e, s1)
      | (Inr user_input, s1) \<Rightarrow>
          if lower user_input \<in> set [''exit'', ''quit''] then (Break, py_print Goodbye s1)
          else
            (case (if lower user_input = ''task'' then task_branch lower ag s1
                   else free_form ag user_input s1) of
               (None, s2) \<Rightarrow> (Continue, s2)
             | (Some e, s2) \<Rightarrow>
                 if isinstance_KeyboardInterrupt e then (Break, py_print Goodbye s2)
                 else if isinstance_Exception e then
                   (Continue, py_print TryAgain (py_print (ErrorShown (str e)) s2))
                 else (Propagate e, s2)))"

text \<open>The prompts given to plain \<^verbatim>\<open>agent.run\<close> calls among some events.\<close>

fun agent_runs :: "cevent list \<Rightarrow> string list" where
  "agent_runs [] = []"
| "agent_runs (AgentRun p # evs) = p # agent_runs evs"
| "agent_runs (ev # evs) = agent_runs evs"

text \<open>
  \<^verbatim>\<open>while True\<close>: every round that goes on has read a line, so the loop ends when
  the input does, if not before. The outcome is the exception that leaves the loop, if any.
\<close>

function chat_loop ::
  "(string \<Rightarrow> string) \<Rightarrow> agent \<Rightarrow> session \<Rightarrow> exn option \<times> session" where
  "chat_loop lower ag s =
     (case turn lower ag s of
        (Continue, s') \<Rightarrow> chat_loop lower ag s'
      | (Break, s') \<Rightarrow> (None, s')
      | (Propagate e, s') \<Rightarrow> (Some e, s'))"
  by pat_completeness auto
termination
proof (relation "measure (\<lambda>(lower, ag, s). length (stdin s))")
  show "wf (measure (\<lambda>(lower, ag, s). length (stdin s)))" by simp
next
  fix lower :: "string \<Rightarrow> string" and ag :: agent and s :: session and x1 x2
  assume a: "(x1, x2) = turn lower ag s" "x1 = Continue"
  have f: "\<And>u t r t'. free_form ag u t = (r, t') \<Longrightarrow> length (stdin t') \<le> length (stdin t)"
    by (auto simp: free_form_def agent_run_def py_print_def split: sum.splits prod.splits)
  have tb: "\<And>t r t'. task_branch lower ag t = (r, t') \<Longrightarrow>
                length (stdin t') \<le> length (stdin t)"
    unfolding task_branch_def
    by (fastforce simp: agent_run_def agent_run_structured_def py_print_def input_def
        split: sum.splits prod.splits if_splits list.splits)
  from a have "length (stdin x2) < length (stdin s)"
    unfolding turn_def
    apply (cases "stdin s")
     apply (simp add: input_def)
    apply (auto simp: input_def py_print_def
        split: sum.splits prod.splits if_splits option.splits dest!: f tb)
    done
  then show "((lower, ag, x2), (lower, ag, s)) \<in> measure (\<lambda>(lower, ag, s). length (stdin s))"
    by simp
qed

text \<open>
  The whole function: the three opening lines, the loop, and \<^verbatim>\<open>finally\<close> the release
  of the sessions on every way out.
\<close>

definition structured_chat_loop ::
  "(string \<Rightarrow> string) \<Rightarrow> agent \<Rightarrow> session \<Rightarrow> exn option \<times> session" where
  "structured_chat_loop lower ag s =
     (case chat_loop lower ag (py_print Banner s) of
        (r, s') \<Rightarrow> (r, s'\<lparr>trace := trace s' @ [CloseAllSessions]\<rparr>))"

section \<open>A database and an agent to evaluate on\<close>

text \<open>
  A database with one table \<^verbatim>\<open>books\<close> of three rows. Reflecting any other table raises
  \<^verbatim>\<open>NoSuchTableError\<close>, whose text is the table name, as SQLAlchemy does; a statement
  other than the three below is a syntax error.
\<close>

definition book :: "int \<Rightarrow> string \<Rightarrow> row" where
  "book i t = [(''id'', PyInt i), (''title'', PyStr t)]"

definition books_rows :: "row list" where
  "books_rows = [book 1 ''Dune'', book 2 ''Emma'', book 3 ''Ulysses'']"

definition books_db :: database where
  "books_db =
     \<lparr>inspect = None,
      get_columns =
        (\<lambda>t. if t = ''books''
              then Inr [\<lparr>col_name = ''id'', col_type = ''INTEGER'', col_nullable = False,
                         col_default = None\<rparr>,
                        \<lparr>col_name = ''title'', col_type = ''TEXT'', col_nullable = True,
                         col_default = None\<rparr>]
              else Inl (Exn SQLAlchemyErrorC t)),
      connect = None,
      execute =
        (\<lambda>q. if q = ''SELECT * FROM books'' \<or> q = ''SELECT * FROM books LIMIT 5''
              then Inr \<lparr>returns_rows = True, fetch = Inr books_rows, rowcount = - 1\<rparr>
              else if q = ''DELETE FROM books WHERE id = 1''
              then Inr \<lparr>returns_rows = False,
                        fetch = Inl (Exn SQLAlchemyErrorC
                                       ''This result object does not return rows.''),
                        rowcount = 1\<rparr>
              else Inl (Exn SQLAlchemyErrorC ''syntax error'')),
      commit = None,
      close = None\<rparr>"

text \<open>
  The same database when it cannot be reached: \<^verbatim>\<open>inspect(engine)\<close>, which opens a
  connection, raises \<^verbatim>\<open>OperationalError\<close>, a \<^verbatim>\<open>SQLAlchemyError\<close>, and so does every
  other call.
\<close>

definition connection_refused :: exn where
  "connection_refused = Exn SQLAlchemyErrorC ''connection refused''"

definition unreachable_db :: database where
  "unreachable_db =
     \<lparr>inspect = Some connection_refused,
      get_columns = (\<lambda>t. Inl connection_refused),
      connect = Some connection_refused,
      execute = (\<lambda>q. Inl connection_refused),
      commit = Some connection_refused,
      close = None\<rparr>"

text \<open>
  On a line of ASCII characters \<^verbatim>\<open>str.lower\<close> lowers the letters \<^verbatim>\<open>A\<close> to \<^verbatim>\<open>Z\<close>
  and leaves every other character. The lines typed in the examples are ASCII, and the
  examples take this function for \<open>lower\<close>.
\<close>

definition lower_ascii :: "string \<Rightarrow> string" where
  "lower_ascii s =
     map (\<lambda>c. if (65::nat) \<le> of_char c \<and> of_char c \<le> (90::nat)
               then char_of (of_char c + (32::nat)) else c) s"

text \<open>
  An agent that extracts one task from every description but \<^verbatim>\<open>bad\<close>, and whose plain
  calls all run out of steps.
\<close>

definition weekly_report :: TaskRequest where
  "weekly_report =
     \<lparr>task_type = Some ''report'', description = Some ''send weekly report'', priority = None\<rparr>"

definition failing_agent :: agent where
  "failing_agent =
     \<lparr>run = (\<lambda>h p. Inl (Exn ExceptionC ''max steps reached'')),
      run_structured =
        (\<lambda>h p. if p = ''Analyze a task with the following description: bad''
                then Inl (Exn ExceptionC ''validation error'')
                else Inr weekly_report)\<rparr>"

text \<open>
  An agent whose calls are cancelled: each raises \<^verbatim>\<open>asyncio.CancelledError\<close>, which
  derives from \<^verbatim>\<open>BaseException\<close> and not from \<^verbatim>\<open>Exception\<close>, and whose
  \<^verbatim>\<open>str\<close> is empty.
\<close>

definition cancelled_agent :: agent where
  "cancelled_agent =
     \<lparr>run = (\<lambda>h p. Inl (Exn BaseExceptionC [])),
      run_structured = (\<lambda>h p. Inl (Exn BaseExceptionC []))\<rparr>"

text \<open>
  Scenario D of the specification: the user types \<^verbatim>\<open>task\<close>, describes the task and
  answers \<^verbatim>\<open>n\<close>.
\<close>

definition scenario_d :: session where
  "scenario_d = \<lparr>stdin = [Inr ''task'', Inr ''send weekly report'', Inr ''n''], trace = []\<rparr>"

section \<open>The schema introspector\<close>

lemma describe_table_propagates:
  "inspect db = None \<Longrightarrow> get_columns db T = Inl e \<Longrightarrow> describe_table db T = Inl e"
  by (simp add: describe_table_def)

lemma describe_table_no_columns:
  "inspect db = None \<Longrightarrow> get_columns db T = Inr [] \<Longrightarrow>
   describe_table db T = Inr \<lparr>td_table = T, td_columns = []\<rparr>"
  by (simp add: describe_table_def)

text \<open>
  Claim C1 says that \<^verbatim>\<open>describe_table(T)\<close>, for a table \<open>T\<close> that does not exist,
  returns the descriptor of \<open>T\<close> with no columns and lets no exception out. The function
  returns that descriptor only when the inspector reports no columns for \<open>T\<close>. On the
  database \<open>books_db\<close>, whose inspector raises \<^verbatim>\<open>NoSuchTableError\<close> for a missing
  table, \<^verbatim>\<open>describe_table("ghost_table")\<close> raises that exception to its caller.
\<close>

theorem describe_table_ghost_table_raises:
  "describe_table books_db ''ghost_table'' = Inl (Exn SQLAlchemyErrorC ''ghost_table'')"
  by (simp add: describe_table_def books_db_def)

lemma sample_data_try_rows:
  assumes "sample_data_try db T = (evs, Inr v)"
  shows "\<exists>c. execute db (''SELECT * FROM '' @ T @ '' LIMIT 5'') = Inr c
             \<and> fetch c = Inr (sd_sample_rows v)"
  using assms
  by (auto simp: sample_data_try_def with_connection_def
      split: sum.splits option.splits prod.splits)

lemma sample_data_try_events:
  "Execute q \<in> set (fst (sample_data_try db T)) \<Longrightarrow> q = ''SELECT * FROM '' @ T @ '' LIMIT 5''"
  by (auto simp: sample_data_try_def with_connection_def
      split: sum.splits option.splits prod.splits)

lemma sample_data_resource_events:
  "Execute q \<in> set (fst (sample_data_resource db T)) \<Longrightarrow>
   q = ''SELECT * FROM '' @ T @ '' LIMIT 5''"
  using sample_data_try_events [of q db T]
  by (auto simp: sample_data_resource_def split: sum.splits option.splits prod.splits if_splits)

lemma sample_data_resource_rows:
  assumes "sample_data_resource db T = (evs, Inr v)"
  shows "sd_sample_rows v = [] \<or>
         (\<exists>c. execute db (''SELECT * FROM '' @ T @ '' LIMIT 5'') = Inr c
               \<and> fetch c = Inr (sd_sample_rows v))"
proof -
  from assms have "(\<exists>es. sample_data_try db T = (es, Inr v)) \<or> sd_sample_rows v = []"
    by (auto simp: sample_data_resource_def split: option.splits sum.splits prod.splits if_splits)
  then show ?thesis using sample_data_try_rows by blast
qed

lemma sample_data_resource_caught:
  assumes "inspect db = None" and "sample_data_try db T = (evs, Inl e)"
    and "isinstance_Exception e"
  shows "\<exists>logged. sample_data_resource db T =
           (evs @ [logged],
            Inr \<lparr>sd_table = T, sd_columns = [], sd_sample_rows = [],
                 sd_error = Some (str e)\<rparr>)"
  using assms by (simp add: sample_data_resource_def)

lemma sample_data_resource_inspect_raises:
  "inspect db = Some e \<Longrightarrow> sample_data_resource db T = ([], Inl e)"
  by (simp add: sample_data_resource_def)

text \<open>
  Claim C6: for every table name \<open>T\<close> the sample-data resource returns at most 5 sample
  rows, 5 being a fixed constant, and on any execution error it returns a view with no
  columns, no rows and the error text, without raising.

  The resource executes the one statement \<^verbatim>\<open>SELECT * FROM T LIMIT 5\<close> and returns the
  rows the database gives for it, and it turns every \<^verbatim>\<open>Exception\<close> raised inside its
  \<^verbatim>\<open>try\<close> into the empty view with the error text. But \<^verbatim>\<open>inspect(engine)\<close> is
  called on the line before the \<^verbatim>\<open>try\<close>: on the database that cannot be reached the
  \<^verbatim>\<open>OperationalError\<close> it raises leaves \<^verbatim>\<open>sample_data_resource("books")\<close>, with
  no statement executed and no view returned.
\<close>

theorem sample_data_resource_unreachable_raises:
  "sample_data_resource unreachable_db ''books'' =
     ([], Inl (Exn SQLAlchemyErrorC ''connection refused''))"
  by (simp add: sample_data_resource_def unreachable_db_def connection_refused_def)

section \<open>The query executor\<close>

lemma run_sql_try_connect_raises:
  "connect db = Some e \<Longrightarrow> run_sql_try db S = ([Connect], Inl e)"
  by (simp add: run_sql_try_def with_connection_def)

lemma run_sql_try_execute_raises:
  "connect db = None \<Longrightarrow> close db = None \<Longrightarrow> execute db S = Inl e \<Longrightarrow>
   run_sql_try db S = ([Connect, Execute S, Close], Inl e)"
  by (simp add: run_sql_try_def with_connection_def)

lemma run_sql_try_commit_raises:
  "connect db = None \<Longrightarrow> close db = None \<Longrightarrow> execute db S = Inr c \<Longrightarrow> \<not> returns_rows c \<Longrightarrow>
   commit db = Some e \<Longrightarrow> run_sql_try db S = ([Connect, Execute S, Commit, Close], Inl e)"
  by (simp add: run_sql_try_def with_connection_def)

text \<open>
  Claim C2: when the execution of \<open>S\<close> raises an error, \<^verbatim>\<open>run_sql(S)\<close> catches it
  and returns a result with \<^verbatim>\<open>success=False\<close>, \<^verbatim>\<open>row_count=0\<close>, no rows, and the
  text of the error as \<^verbatim>\<open>error\<close>; nothing is raised. The error is any \<^verbatim>\<open>Exception\<close>
  the body of the \<^verbatim>\<open>try\<close> raises, at \<^verbatim>\<open>connect\<close>, \<^verbatim>\<open>execute\<close>, the reading of
  the rows, \<^verbatim>\<open>commit\<close> or the closing of the connection.
\<close>

theorem run_sql_error_envelope:
  assumes "run_sql_try db S = (evs, Inl e)" and "isinstance_Exception e"
  shows "\<exists>logged. run_sql db S =
           (evs @ [logged],
            Inr \<lparr>success = False, sql = S, row_count = 0, rows = None,
                 error = Some (str e)\<rparr>)"
  using assms by (simp add: run_sql_def)

text \<open>A statement that is a syntax error on \<open>books_db\<close>.\<close>

theorem run_sql_error_envelope_witness:
  "run_sql_try books_db ''SELEC 1'' =
     ([Connect, Execute ''SELEC 1'', Close], Inl (Exn SQLAlchemyErrorC ''syntax error''))
   \<and> isinstance_Exception (Exn SQLAlchemyErrorC ''syntax error'')
   \<and> (\<exists>logged. run_sql books_db ''SELEC 1'' =
           ([Connect, Execute ''SELEC 1'', Close] @ [logged],
            Inr \<lparr>success = False, sql = ''SELEC 1'', row_count = 0, rows = None,
                 error = Some ''syntax error''\<rparr>))"
proof -
  have t: "run_sql_try books_db ''SELEC 1'' =
     ([Connect, Execute ''SELEC 1'', Close], Inl (Exn SQLAlchemyErrorC ''syntax error''))"
    by (simp add: run_sql_try_def with_connection_def books_db_def)
  have x: "isinstance_Exception (Exn SQLAlchemyErrorC ''syntax error'')"
    by (simp add: isinstance_Exception_def)
  show ?thesis using t x run_sql_error_envelope [OF t x] by simp
qed

text \<open>
  Claim C3: when \<open>S\<close> returns rows and nothing raises, \<^verbatim>\<open>run_sql(S)\<close> returns
  \<^verbatim>\<open>success=True\<close>, all the rows, no error, \<^verbatim>\<open>row_count\<close> the number of rows, and
  does not commit.
\<close>

theorem run_sql_rows:
  assumes "connect db = None" and "execute db S = Inr c" and "returns_rows c"
    and "fetch c = Inr rs" and "close db = None"
  shows "run_sql db S =
           ([Connect, Execute S, Fetch, Close],
            Inr \<lparr>success = True, sql = S, row_count = int (length rs), rows = Some rs,
                 error = None\<rparr>)
         \<and> Commit \<notin> set (fst (run_sql db S))"
  using assms by (simp add: run_sql_def run_sql_try_def with_connection_def)

text \<open>Scenario A of the specification: the three rows of \<^verbatim>\<open>books\<close>.\<close>

theorem run_sql_rows_witness:
  "run_sql books_db ''SELECT * FROM books'' =
     ([Connect, Execute ''SELECT * FROM books'', Fetch, Close],
      Inr \<lparr>success = True, sql = ''SELECT * FROM books'', row_count = 3,
           rows = Some books_rows, error = None\<rparr>)
   \<and> Commit \<notin> set (fst (run_sql books_db ''SELECT * FROM books''))"
  using run_sql_rows [of books_db "''SELECT * FROM books''"
      "\<lparr>returns_rows = True, fetch = Inr books_rows, rowcount = - 1\<rparr>" books_rows]
  by (simp add: books_db_def books_rows_def)

text \<open>
  Claim C4: when \<open>S\<close> is valid and returns no rows, \<^verbatim>\<open>run_sql(S)\<close> commits and
  returns \<^verbatim>\<open>success=True\<close>, no rows, no error, and as \<^verbatim>\<open>row_count\<close> the
  \<^verbatim>\<open>rowcount\<close> of the cursor.
\<close>

theorem run_sql_no_rows:
  assumes "connect db = None" and "execute db S = Inr c" and "\<not> returns_rows c"
    and "commit db = None" and "close db = None"
  shows "run_sql db S =
           ([Connect, Execute S, Commit, Close],
            Inr \<lparr>success = True, sql = S, row_count = rowcount c, rows = None,
                 error = None\<rparr>)"
  using assms by (simp add: run_sql_def run_sql_try_def with_connection_def)

text \<open>Scenario B of the specification: one row affected.\<close>

theorem run_sql_no_rows_witness:
  "run_sql books_db ''DELETE FROM books WHERE id = 1'' =
     ([Connect, Execute ''DELETE FROM books WHERE id = 1'', Commit, Close],
      Inr \<lparr>success = True, sql = ''DELETE FROM books WHERE id = 1'', row_count = 1,
           rows = None, error = None\<rparr>)"
  using run_sql_no_rows [of books_db "''DELETE FROM books WHERE id = 1''"
      "\<lparr>returns_rows = False,
        fetch = Inl (Exn SQLAlchemyErrorC ''This result object does not return rows.''),
        rowcount = 1\<rparr>"]
  by (simp add: books_db_def)

text \<open>
  Claim C5: in every result \<^verbatim>\<open>run_sql\<close> returns, rows and error are never both
  present, and the error is present exactly when \<^verbatim>\<open>success\<close> is false.
\<close>

theorem run_sql_invariant:
  assumes "run_sql db S = (evs, Inr r)"
  shows "\<not> (rows r \<noteq> None \<and> error r \<noteq> None) \<and> (error r \<noteq> None \<longleftrightarrow> \<not> success r)"
  using assms
  by (auto simp: run_sql_def run_sql_try_def with_connection_def
      split: option.splits sum.splits if_splits prod.splits)

theorem run_sql_invariant_witness:
  "run_sql books_db ''DROP'' =
     ([Connect, Execute ''DROP'', Close, LogError ''SQL error: syntax error''],
      Inr \<lparr>success = False, sql = ''DROP'', row_count = 0, rows = None,
           error = Some ''syntax error''\<rparr>)
   \<and> \<not> (rows \<lparr>success = False, sql = ''DROP'', row_count = 0, rows = None,
               error = Some ''syntax error''\<rparr> \<noteq> None
         \<and> error \<lparr>success = False, sql = ''DROP'', row_count = 0, rows = None,
                  error = Some ''syntax error''\<rparr> \<noteq> None)"
proof -
  have r: "run_sql books_db ''DROP'' =
     ([Connect, Execute ''DROP'', Close, LogError ''SQL error: syntax error''],
      Inr \<lparr>success = False, sql = ''DROP'', row_count = 0, rows = None,
           error = Some ''syntax error''\<rparr>)"
    by (simp add: run_sql_def run_sql_try_def with_connection_def books_db_def
        isinstance_SQLAlchemyError_def)
  from run_sql_invariant [OF r] r show ?thesis by blast
qed

section \<open>The error recovery advisor\<close>

text \<open>
  Claim C7: the prompt is a function of its three arguments, and its text holds the
  query and the error message as they are, followed by the fixed script of three steps:
  \<^verbatim>\<open>list_tables\<close>, \<^verbatim>\<open>describe_table\<close>, a corrected \<^verbatim>\<open>run_sql\<close>. A query that
  is given, \<open>Some s\<close>, is rendered as \<open>s\<close>.
\<close>

theorem handle_query_error_text:
  "messages (handle_query_error e t q) =
     [\<lparr>role = ''user'', content_type = ''text'',
       content_text =
         ''You attempted to run this SQL query:\<newline>'' @ fmt q @
         ''\<newline>\<newline>It failed with the error:\<newline>'' @ e @ ''\<newline>\<newline>'' @ recovery_script\<rparr>]
   \<and> fmt (Some s) = s
   \<and> (\<exists>a b c d. recovery_script =
         a @ ''1. Call list_tables()'' @ b @ ''2. Call describe_table(table_name)'' @ c @
         ''call run_sql()'' @ d)"
proof -
  have "recovery_script =
          ''Here are your options:\<newline>'' @ ''1. Call list_tables()'' @
          '' to check available tables.\<newline>'' @ ''2. Call describe_table(table_name)'' @
          '' to inspect schema of the target table.\<newline>3. Once you have correct schema/columns, craft a corrected SQL and '' @
          ''call run_sql()'' @ ''.\<newline>Which step will you take?''"
    by (simp add: recovery_script_def)
  then have "\<exists>a b c d. recovery_script =
         a @ ''1. Call list_tables()'' @ b @ ''2. Call describe_table(table_name)'' @ c @
         ''call run_sql()'' @ d"
    by blast
  then show ?thesis by (simp add: handle_query_error_def)
qed

text \<open>
  Claim C10: the prompt does not depend on its \<^verbatim>\<open>table_name\<close> argument: two calls
  that differ in the table name only give the same result.
\<close>

theorem handle_query_error_independent_of_table:
  "handle_query_error e t1 q = handle_query_error e t2 q"
  by (simp add: handle_query_error_def)

section \<open>The orchestration loop\<close>

lemma agent_runs_append: "agent_runs (xs @ ys) = agent_runs xs @ agent_runs ys"
  by (induction xs rule: agent_runs.induct) simp_all

lemma input_trace: "input p s = (r, s') \<Longrightarrow> trace s' = trace s @ [Input p]"
  by (auto simp: input_def split: list.splits)

lemma free_form_trace: "free_form ag u t = (r, t') \<Longrightarrow> \<exists>evs. trace t' = trace t @ evs"
  by (auto simp: free_form_def agent_run_def py_print_def split: sum.splits prod.splits)

lemma task_branch_trace:
  "task_branch lower ag t = (r, t') \<Longrightarrow> \<exists>evs. trace t' = trace t @ evs"
  unfolding task_branch_def
  by (auto simp: agent_run_def agent_run_structured_def py_print_def
      split: sum.splits prod.splits if_splits dest!: input_trace)

lemma turn_trace:
  "\<exists>evs. trace (snd (turn lower ag s)) = trace s @ Input ''\<newline>You: '' # evs"
proof -
  obtain r s1 where i: "input ''\<newline>You: '' s = (r, s1)" by (cases "input ''\<newline>You: '' s")
  then have t1: "trace s1 = trace s @ [Input ''\<newline>You: '']" by (rule input_trace)
  show ?thesis
  proof (cases r)
    case (Inl e)
    with i t1 show ?thesis by (simp add: turn_def)
  next
    case (Inr u)
    obtain b s2 where body:
      "(if lower u = ''task'' then task_branch lower ag s1 else free_form ag u s1) = (b, s2)"
      by (cases "if lower u = ''task'' then task_branch lower ag s1 else free_form ag u s1")
    then obtain evs where t2: "trace s2 = trace s1 @ evs"
      using task_branch_trace [of lower ag s1 b s2] free_form_trace [of ag u s1 b s2]
      by (auto split: if_splits)
    show ?thesis
      using i Inr body t1 t2
      by (cases b) (simp_all add: turn_def py_print_def)
  qed
qed

lemma chat_loop_trace:
  "\<exists>evs. trace (snd (chat_loop lower ag s)) = trace s @ Input ''\<newline>You: '' # evs"
proof (induction lower ag s rule: chat_loop.induct)
  case (1 lower ag s)
  obtain c s' where t: "turn lower ag s = (c, s')" by (cases "turn lower ag s")
  from turn_trace [of lower ag s] t obtain evs
    where e: "trace s' = trace s @ Input ''\<newline>You: '' # evs" by auto
  show ?case
  proof (cases c)
    case Continue
    from "1.IH" [OF t [symmetric] Continue] obtain evs'
      where "trace (snd (chat_loop lower ag s')) = trace s' @ Input ''\<newline>You: '' # evs'" ..
    with e t Continue show ?thesis by (subst chat_loop.simps) simp
  next
    case Break
    with e t show ?thesis by (subst chat_loop.simps) simp
  next
    case (Propagate x)
    with e t show ?thesis by (subst chat_loop.simps) simp
  qed
qed

lemma chat_loop_Continue:
  "turn lower ag s = (Continue, s') \<Longrightarrow> chat_loop lower ag s = chat_loop lower ag s'"
  by (subst chat_loop.simps) simp

text \<open>
  Claim C8: the extracted task goes to the execution call exactly when the answer to the
  confirmation question, lowercased, is \<^verbatim>\<open>y\<close>; any other answer discards the task
  with no execution call, and the loop goes back to waiting for input.

  In a round where the user typed \<^verbatim>\<open>task\<close>, gave a description, the extraction
  returned \<open>task\<close> and the answer was \<open>p\<close>: the plain agent calls of the round are
  the one execution call on the task's description when \<open>lower p\<close> is \<^verbatim>\<open>y\<close>, and
  none otherwise; in the latter case the round ends, to be continued, in the state reached
  by reading the answer, and the next thing the loop does is to ask for the next line.
\<close>

theorem confirmation_gate:
  assumes "input ''\<newline>You: '' s = (Inr u, s1)"
    and "lower u = ''task''"
    and "input ''Describe your task: '' (py_print CreatingTask s1) = (Inr d, s2)"
    and "agent_run_structured ag (''Analyze a task with the following description: '' @ d) s2
           = (Inr task, s3)"
    and "input ''\<newline>Do you want to proceed with this task? (y/n)''
           (py_print (TaskAnalysis (fmt (task_type task)) (fmt (description task))
                        (priority_or_low (priority task))) s3) = (Inr p, s5)"
  shows "agent_runs (trace (snd (turn lower ag s))) =
           agent_runs (trace s) @
             (if lower p = ''y'' then [''Execute the following task: '' @ fmt (description task)]
              else [])
         \<and> (lower p \<noteq> ''y'' \<longrightarrow>
              turn lower ag s = (Continue, s5)
              \<and> (\<exists>evs. trace (snd (chat_loop lower ag s)) =
                         trace s5 @ Input ''\<newline>You: '' # evs))"
proof -
  have t1: "trace s1 = trace s @ [Input ''\<newline>You: '']"
    using assms(1) by (rule input_trace)
  have t2: "trace s2 = trace s1 @ [Print CreatingTask, Input ''Describe your task: '']"
    using input_trace [OF assms(3)] by (simp add: py_print_def)
  have t3: "trace s3 = trace s2 @
              [AgentRunStructured (''Analyze a task with the following description: '' @ d)]"
    using assms(4) by (auto simp: agent_run_structured_def)
  have t5: "agent_runs (trace s5) = agent_runs (trace s3)"
    using input_trace [OF assms(5)] by (simp add: py_print_def agent_runs_append)
  have a5: "agent_runs (trace s5) = agent_runs (trace s)"
    by (simp add: t5 t3 t2 t1 agent_runs_append)
  have tb: "task_branch lower ag s1 =
      (if lower p = ''y'' then
         (case agent_run ag (''Execute the following task: '' @ fmt (description task)) s5 of
            (Inl e, s6) \<Rightarrow> (Some e, s6)
          | (Inr response, s6) \<Rightarrow> (None, py_print (Assistant response) s6))
       else (None, s5))"
    using assms(3,4,5) by (simp add: task_branch_def)
  have tn: "turn lower ag s =
     (case task_branch lower ag s1 of
        (None, s2) \<Rightarrow> (Continue, s2)
      | (Some e, s2) \<Rightarrow>
          if isinstance_KeyboardInterrupt e then (Break, py_print Goodbye s2)
          else if isinstance_Exception e then
            (Continue, py_print TryAgain (py_print (ErrorShown (str e)) s2))
          else (Propagate e, s2))"
    using assms(1,2) by (simp add: turn_def)
  show ?thesis
  proof (cases "lower p = ''y''")
    case False
    then have t: "turn lower ag s = (Continue, s5)" using tb tn by simp
    from chat_loop_Continue [OF t] chat_loop_trace [of lower ag s5]
    have "\<exists>evs. trace (snd (chat_loop lower ag s)) = trace s5 @ Input ''\<newline>You: '' # evs"
      by simp
    with False t a5 show ?thesis by simp
  next
    case True
    then show ?thesis using tb tn a5
      by (cases "run ag (trace s5) (''Execute the following task: '' @ fmt (description task))")
         (simp_all add: agent_run_def py_print_def agent_runs_append)
  qed
qed

lemma lower_ascii_examples:
  "lower_ascii ''hello'' = ''hello''" "lower_ascii ''task'' = ''task''"
  "lower_ascii ''TASK'' = ''task''" "lower_ascii ''Y'' = ''y''" "lower_ascii ''n'' = ''n''"
  "lower_ascii ''exit'' = ''exit''"
  by (simp_all add: lower_ascii_def char_of_eq_iff)

text \<open>Scenario D: no execution call, and the round ends to be continued.\<close>

theorem confirmation_gate_witness:
  "turn lower_ascii failing_agent scenario_d =
     (Continue,
      \<lparr>stdin = [],
       trace = [Input ''\<newline>You: '', Print CreatingTask, Input ''Describe your task: '',
                AgentRunStructured
                  ''Analyze a task with the following description: send weekly report'',
                Print (TaskAnalysis ''report'' ''send weekly report'' ''low''),
                Input ''\<newline>Do you want to proceed with this task? (y/n)'']\<rparr>)
   \<and> agent_runs (trace (snd (turn lower_ascii failing_agent scenario_d))) = []"
proof -
  let ?s1 = "\<lparr>stdin = [Inr ''send weekly report'', Inr ''n''], trace = [Input ''\<newline>You: '']\<rparr>"
  let ?s2 = "\<lparr>stdin = [Inr ''n''],
              trace = [Input ''\<newline>You: '', Print CreatingTask, Input ''Describe your task: '']\<rparr>"
  let ?s3 = "\<lparr>stdin = [Inr ''n''],
              trace = [Input ''\<newline>You: '', Print CreatingTask, Input ''Describe your task: '',
                AgentRunStructured
                  ''Analyze a task with the following description: send weekly report'']\<rparr>"
  let ?s5 = "\<lparr>stdin = [],
       trace = [Input ''\<newline>You: '', Print CreatingTask, Input ''Describe your task: '',
                AgentRunStructured
                  ''Analyze a task with the following description: send weekly report'',
                Print (TaskAnalysis ''report'' ''send weekly report'' ''low''),
                Input ''\<newline>Do you want to proceed with this task? (y/n)'']\<rparr>"
  have h1: "input ''\<newline>You: '' scenario_d = (Inr ''task'', ?s1)"
    by (simp add: input_def scenario_d_def)
  have h2: "lower_ascii ''task'' = ''task''" by (rule lower_ascii_examples)
  have h3: "input ''Describe your task: '' (py_print CreatingTask ?s1)
              = (Inr ''send weekly report'', ?s2)"
    by (simp add: input_def py_print_def)
  have h4: "agent_run_structured failing_agent
              (''Analyze a task with the following description: '' @ ''send weekly report'') ?s2
              = (Inr weekly_report, ?s3)"
    by (simp add: agent_run_structured_def failing_agent_def)
  have h5: "input ''\<newline>Do you want to proceed with this task? (y/n)''
           (py_print (TaskAnalysis (fmt (task_type weekly_report)) (fmt (description weekly_report))
                        (priority_or_low (priority weekly_report))) ?s3) = (Inr ''n'', ?s5)"
    by (simp add: input_def py_print_def weekly_report_def priority_or_low_def)
  have n: "lower_ascii ''n'' \<noteq> ''y''" by (simp add: lower_ascii_examples)
  from confirmation_gate [where lower = lower_ascii, OF h1 h2 h3 h4 h5] n show ?thesis
    by (simp add: scenario_d_def)
qed

text \<open>
  Claim C9 says that every error raised by an agent call of a round, be it the free-form
  call, the task extraction or the task execution, is caught by the loop and shown to the
  user, and that the loop then waits for the next input. This holds of every error that
  is an \<^verbatim>\<open>Exception\<close>, which is what the loop catches: the round prints the error and
  the invitation to try again and ends to be continued, the next thing the loop does is
  to ask for the next line, and that call reads the line that follows.
\<close>

theorem turn_error_recovery:
  assumes "isinstance_Exception e"
    and "input ''\<newline>You: '' s = (Inr u, s1)"
    and "lower u \<noteq> ''exit''" and "lower u \<noteq> ''quit''"
    and "(lower u \<noteq> ''task'' \<and> agent_run ag u s1 = (Inl e, s2))
       \<or> (lower u = ''task''
          \<and> input ''Describe your task: '' (py_print CreatingTask s1) = (Inr d, sd)
          \<and> agent_run_structured ag
               (''Analyze a task with the following description: '' @ d) sd = (Inl e, s2))
       \<or> (lower u = ''task''
          \<and> input ''Describe your task: '' (py_print CreatingTask s1) = (Inr d, sd)
          \<and> agent_run_structured ag
               (''Analyze a task with the following description: '' @ d) sd = (Inr task, st)
          \<and> input ''\<newline>Do you want to proceed with this task? (y/n)''
               (py_print (TaskAnalysis (fmt (task_type task)) (fmt (description task))
                            (priority_or_low (priority task))) st) = (Inr p, sp)
          \<and> lower p = ''y''
          \<and> agent_run ag (''Execute the following task: '' @ fmt (description task)) sp
               = (Inl e, s2))"
  shows "turn lower ag s =
           (Continue, s2\<lparr>trace := trace s2 @ [Print (ErrorShown (str e)), Print TryAgain]\<rparr>)
       \<and> (\<exists>evs. trace (snd (chat_loop lower ag s)) =
                  trace s2 @ [Print (ErrorShown (str e)), Print TryAgain, Input ''\<newline>You: '']
                  @ evs)
       \<and> (\<forall>x rest. stdin s2 = x # rest \<longrightarrow>
             input ''\<newline>You: '' (s2\<lparr>trace := trace s2 @ [Print (ErrorShown (str e)), Print TryAgain]\<rparr>)
               = (x, \<lparr>stdin = rest,
                      trace = trace s2 @ [Print (ErrorShown (str e)), Print TryAgain,
                                          Input ''\<newline>You: '']\<rparr>))"
proof -
  let ?s' = "s2\<lparr>trace := trace s2 @ [Print (ErrorShown (str e)), Print TryAgain]\<rparr>"
  have nk: "\<not> isinstance_KeyboardInterrupt e"
    using assms(1) by (auto simp: isinstance_Exception_def isinstance_KeyboardInterrupt_def)
  have body: "(if lower u = ''task'' then task_branch lower ag s1 else free_form ag u s1)
                = (Some e, s2)"
    using assms(5)
  proof (elim disjE conjE)
    assume "lower u \<noteq> ''task''" "agent_run ag u s1 = (Inl e, s2)"
    then show ?thesis by (simp add: free_form_def)
  next
    assume "lower u = ''task''"
      "input ''Describe your task: '' (py_print CreatingTask s1) = (Inr d, sd)"
      "agent_run_structured ag (''Analyze a task with the following description: '' @ d) sd
         = (Inl e, s2)"
    then show ?thesis by (simp add: task_branch_def)
  next
    assume "lower u = ''task''"
      "input ''Describe your task: '' (py_print CreatingTask s1) = (Inr d, sd)"
      "agent_run_structured ag (''Analyze a task with the following description: '' @ d) sd
         = (Inr task, st)"
      "input ''\<newline>Do you want to proceed with this task? (y/n)''
               (py_print (TaskAnalysis (fmt (task_type task)) (fmt (description task))
                            (priority_or_low (priority task))) st) = (Inr p, sp)"
      "lower p = ''y''"
      "agent_run ag (''Execute the following task: '' @ fmt (description task)) sp = (Inl e, s2)"
    then show ?thesis by (simp add: task_branch_def)
  qed
  have t: "turn lower ag s = (Continue, ?s')"
    using assms(1,2,3,4) nk body by (simp add: turn_def py_print_def)
  from chat_loop_Continue [OF t] chat_loop_trace [of lower ag ?s']
  have l: "\<exists>evs. trace (snd (chat_loop lower ag s)) =
                  trace s2 @ [Print (ErrorShown (str e)), Print TryAgain, Input ''\<newline>You: '']
                  @ evs"
    by simp
  have n: "\<forall>x rest. stdin s2 = x # rest \<longrightarrow>
             input ''\<newline>You: '' ?s'
               = (x, \<lparr>stdin = rest,
                      trace = trace s2 @ [Print (ErrorShown (str e)), Print TryAgain,
                                          Input ''\<newline>You: '']\<rparr>)"
    by (simp add: input_def)
  from t l n show ?thesis by blast
qed

text \<open>
  It does not hold of an exception that is not an \<^verbatim>\<open>Exception\<close>: when the agent
  call is cancelled, the exception leaves the loop, nothing is shown, the sessions are
  released and the line \<^verbatim>\<open>exit\<close> that follows is never read.
\<close>

theorem turn_error_recovery_counterexample:
  "structured_chat_loop lower_ascii cancelled_agent
     \<lparr>stdin = [Inr ''hello'', Inr ''exit''], trace = []\<rparr> =
     (Some (Exn BaseExceptionC []),
      \<lparr>stdin = [Inr ''exit''],
       trace = [Print Banner, Input ''\<newline>You: '', AgentRun ''hello'', CloseAllSessions]\<rparr>)"
  unfolding structured_chat_loop_def
  by (subst chat_loop.simps)
     (simp add: turn_def input_def py_print_def free_form_def agent_run_def cancelled_agent_def
        lower_ascii_examples isinstance_KeyboardInterrupt_def isinstance_Exception_def)

text \<open>
  The three calls failing in turn: a free-form call, with the whole session that follows
  it up to \<^verbatim>\<open>exit\<close>; an extraction; and an execution confirmed with \<^verbatim>\<open>Y\<close>.
\<close>

theorem turn_error_recovery_witness:
  "turn lower_ascii failing_agent
        \<lparr>stdin = [Inr ''hello'', Inr ''exit''], trace = [Print Banner]\<rparr> =
     (Continue,
      \<lparr>stdin = [Inr ''exit''],
       trace = [Print Banner, Input ''\<newline>You: '', AgentRun ''hello'',
                Print (ErrorShown ''max steps reached''), Print TryAgain]\<rparr>)
   \<and> structured_chat_loop lower_ascii failing_agent
        \<lparr>stdin = [Inr ''hello'', Inr ''exit''], trace = []\<rparr> =
     (None,
      \<lparr>stdin = [],
       trace = [Print Banner, Input ''\<newline>You: '', AgentRun ''hello'',
                Print (ErrorShown ''max steps reached''), Print TryAgain,
                Input ''\<newline>You: '', Print Goodbye, CloseAllSessions]\<rparr>)
   \<and> turn lower_ascii failing_agent
        \<lparr>stdin = [Inr ''task'', Inr ''bad'', Inr ''y''], trace = []\<rparr> =
     (Continue,
      \<lparr>stdin = [Inr ''y''],
       trace = [Input ''\<newline>You: '', Print CreatingTask, Input ''Describe your task: '',
                AgentRunStructured ''Analyze a task with the following description: bad'',
                Print (ErrorShown ''validation error''), Print TryAgain]\<rparr>)
   \<and> turn lower_ascii failing_agent
        \<lparr>stdin = [Inr ''TASK'', Inr ''send weekly report'', Inr ''Y'', Inr ''exit''], trace = []\<rparr> =
     (Continue,
      \<lparr>stdin = [Inr ''exit''],
       trace = [Input ''\<newline>You: '', Print CreatingTask, Input ''Describe your task: '',
                AgentRunStructured
                  ''Analyze a task with the following description: send weekly report'',
                Print (TaskAnalysis ''report'' ''send weekly report'' ''low''),
                Input ''\<newline>Do you want to proceed with this task? (y/n)'',
                AgentRun ''Execute the following task: send weekly report'',
                Print (ErrorShown ''max steps reached''), Print TryAgain]\<rparr>)"
proof -
  let ?e = "Exn ExceptionC ''max steps reached''"
  let ?v = "Exn ExceptionC ''validation error''"
  let ?a0 = "\<lparr>stdin = [Inr ''hello'', Inr ''exit''], trace = [Print Banner]\<rparr>"
  let ?a1 = "\<lparr>stdin = [Inr ''exit''],
       trace = [Print Banner, Input ''\<newline>You: '', AgentRun ''hello'',
                Print (ErrorShown ''max steps reached''), Print TryAgain]\<rparr>"
  let ?a2 = "\<lparr>stdin = [],
       trace = [Print Banner, Input ''\<newline>You: '', AgentRun ''hello'',
                Print (ErrorShown ''max steps reached''), Print TryAgain,
                Input ''\<newline>You: '', Print Goodbye]\<rparr>"
  have x: "isinstance_Exception ?e" "isinstance_Exception ?v"
    by (simp_all add: isinstance_Exception_def)
  note lw = lower_ascii_examples
  have a: "turn lower_ascii failing_agent ?a0 = (Continue, ?a1)"
    using turn_error_recovery [where e = ?e and s = ?a0 and u = "''hello''"
        and ?s1.0 = "\<lparr>stdin = [Inr ''exit''], trace = [Print Banner, Input ''\<newline>You: '']\<rparr>"
        and lower = lower_ascii and ag = failing_agent
        and ?s2.0 = "\<lparr>stdin = [Inr ''exit''],
                      trace = [Print Banner, Input ''\<newline>You: '', AgentRun ''hello'']\<rparr>"] x
    by (simp add: lw input_def agent_run_def failing_agent_def)
  have a': "turn lower_ascii failing_agent ?a1 = (Break, ?a2)"
    by (simp add: turn_def input_def py_print_def lw)
  have "chat_loop lower_ascii failing_agent ?a1 = (None, ?a2)"
    by (subst chat_loop.simps) (simp add: a')
  then have "chat_loop lower_ascii failing_agent ?a0 = (None, ?a2)"
    by (subst chat_loop.simps) (simp add: a)
  then have s: "structured_chat_loop lower_ascii failing_agent
        \<lparr>stdin = [Inr ''hello'', Inr ''exit''], trace = []\<rparr> =
     (None,
      \<lparr>stdin = [],
       trace = [Print Banner, Input ''\<newline>You: '', AgentRun ''hello'',
                Print (ErrorShown ''max steps reached''), Print TryAgain,
                Input ''\<newline>You: '', Print Goodbye, CloseAllSessions]\<rparr>)"
    by (simp add: structured_chat_loop_def py_print_def)
  have b: "turn lower_ascii failing_agent
             \<lparr>stdin = [Inr ''task'', Inr ''bad'', Inr ''y''], trace = []\<rparr> =
     (Continue,
      \<lparr>stdin = [Inr ''y''],
       trace = [Input ''\<newline>You: '', Print CreatingTask, Input ''Describe your task: '',
                AgentRunStructured ''Analyze a task with the following description: bad'',
                Print (ErrorShown ''validation error''), Print TryAgain]\<rparr>)"
    using turn_error_recovery [where e = ?v
        and s = "\<lparr>stdin = [Inr ''task'', Inr ''bad'', Inr ''y''], trace = []\<rparr>"
        and u = "''task''"
        and ?s1.0 = "\<lparr>stdin = [Inr ''bad'', Inr ''y''], trace = [Input ''\<newline>You: '']\<rparr>"
        and lower = lower_ascii and ag = failing_agent
        and ?s2.0 = "\<lparr>stdin = [Inr ''y''],
          trace = [Input ''\<newline>You: '', Print CreatingTask, Input ''Describe your task: '',
                AgentRunStructured ''Analyze a task with the following description: bad'']\<rparr>"
        and d = "''bad''"
        and sd = "\<lparr>stdin = [Inr ''y''],
          trace = [Input ''\<newline>You: '', Print CreatingTask, Input ''Describe your task: '']\<rparr>"] x
    by (simp add: lw input_def agent_run_structured_def failing_agent_def py_print_def)
  have c: "turn lower_ascii failing_agent
        \<lparr>stdin = [Inr ''TASK'', Inr ''send weekly report'', Inr ''Y'', Inr ''exit''], trace = []\<rparr> =
     (Continue,
      \<lparr>stdin = [Inr ''exit''],
       trace = [Input ''\<newline>You: '', Print CreatingTask, Input ''Describe your task: '',
                AgentRunStructured
                  ''Analyze a task with the following description: send weekly report'',
                Print (TaskAnalysis ''report'' ''send weekly report'' ''low''),
                Input ''\<newline>Do you want to proceed with this task? (y/n)'',
                AgentRun ''Execute the following task: send weekly report'',
                Print (ErrorShown ''max steps reached''), Print TryAgain]\<rparr>)"
    using turn_error_recovery [where e = ?e
        and s = "\<lparr>stdin = [Inr ''TASK'', Inr ''send weekly report'', Inr ''Y'', Inr ''exit''],
                  trace = []\<rparr>"
        and u = "''TASK''"
        and ?s1.0 = "\<lparr>stdin = [Inr ''send weekly report'', Inr ''Y'', Inr ''exit''],
                      trace = [Input ''\<newline>You: '']\<rparr>"
        and lower = lower_ascii and ag = failing_agent
        and ?s2.0 = "\<lparr>stdin = [Inr ''exit''],
       trace = [Input ''\<newline>You: '', Print CreatingTask, Input ''Describe your task: '',
                AgentRunStructured
                  ''Analyze a task with the following description: send weekly report'',
                Print (TaskAnalysis ''report'' ''send weekly report'' ''low''),
                Input ''\<newline>Do you want to proceed with this task? (y/n)'',
                AgentRun ''Execute the following task: send weekly report'']\<rparr>"
        and d = "''send weekly report''"
        and sd = "\<lparr>stdin = [Inr ''Y'', Inr ''exit''],
          trace = [Input ''\<newline>You: '', Print CreatingTask, Input ''Describe your task: '']\<rparr>"
        and task = weekly_report
        and st = "\<lparr>stdin = [Inr ''Y'', Inr ''exit''],
          trace = [Input ''\<newline>You: '', Print CreatingTask, Input ''Describe your task: '',
                AgentRunStructured
                  ''Analyze a task with the following description: send weekly report'']\<rparr>"
        and p = "''Y''"
        and sp = "\<lparr>stdin = [Inr ''exit''],
       trace = [Input ''\<newline>You: '', Print CreatingTask, Input ''Describe your task: '',
                AgentRunStructured
                  ''Analyze a task with the following description: send weekly report'',
                Print (TaskAnalysis ''report'' ''send weekly report'' ''low''),
                Input ''\<newline>Do you want to proceed with this task? (y/n)'']\<rparr>"] x
    by (simp add: lw input_def agent_run_structured_def agent_run_def failing_agent_def py_print_def
        weekly_report_def priority_or_low_def)
  from a s b c show ?thesis by blast
qed

end
